theory Spec2Isabelle
  imports Main "HOL-Library.Word"
begin

section \<open>Kernel smart account: construction, signing and call encoding\<close>

text \<open>
  A shallow embedding of \<^verbatim>\<open>createKernelAccount\<close> and of the functions around it.
  JavaScript strings (\<^verbatim>\<open>Address\<close>, \<^verbatim>\<open>Hex\<close>, messages) are \<open>string\<close>s that hold the
  whole text, the \<^verbatim>\<open>0x\<close> prefix included. A thrown error or a rejected promise is
  the \<open>Inl\<close> of a result; an asynchronous function that reaches outside the module
  (the chain, the validator, the signer) returns the list of the calls it made, in
  order, together with its result.
\<close>

subsection \<open>Errors, results and effects\<close>

datatype error =
    Error string
  | SignTransactionNotSupportedBySmartAccount
  | InvalidAddressError string

type_synonym 'a result = "error + 'a"

definition bindE :: "'a result \<Rightarrow> ('a \<Rightarrow> 'b result) \<Rightarrow> 'b result" where
  "bindE m f = (case m of Inl e \<Rightarrow> Inl e | Inr x \<Rightarrow> f x)"

text \<open>The signer of a validator: of viem's \<^verbatim>\<open>Account\<close> the module reads \<^verbatim>\<open>address\<close>
  only; whatever else the object holds is the record's extension.\<close>

record account =
  signerAddress :: string

text \<open>What an operation did outside the module.\<close>

datatype 'z event =
    EthCall string string
  | GetEnableData string
  | GetSenderAddress string string
  | GetBytecode string
  | SignMessage "'z account_scheme" string

type_synonym ('z, 'a) io = "'z event list \<times> 'a result"

definition resolve :: "'a \<Rightarrow> ('z, 'a) io" where
  "resolve x = ([], Inr x)"

definition reject :: "error \<Rightarrow> ('z, 'a) io" where
  "reject e = ([], Inl e)"

definition settled :: "'a result \<Rightarrow> ('z, 'a) io" where
  "settled r = ([], r)"

definition perform :: "'z event \<Rightarrow> 'a result \<Rightarrow> ('z, 'a) io" where
  "perform ev r = ([ev], r)"

definition await :: "('z, 'a) io \<Rightarrow> ('a \<Rightarrow> ('z, 'b) io) \<Rightarrow> ('z, 'b) io" where
  "await m f =
     (case m of
        (t, Inl e) \<Rightarrow> (t, Inl e)
      | (t, Inr x) \<Rightarrow> (case f x of (t', r) \<Rightarrow> (t @ t', r)))"

subsection \<open>JavaScript values\<close>

text \<open>JavaScript's truthiness of an optional string: \<^verbatim>\<open>undefined\<close> and the empty
  string are falsy.\<close>

fun truthy :: "string option \<Rightarrow> bool" where
  "truthy None = False"
| "truthy (Some s) = (s \<noteq> [])"

text \<open>\<^verbatim>\<open>String.prototype.toLowerCase\<close>, on the letters an address or a hex string can
  hold (ASCII).\<close>

definition toLowerCaseChar :: "char \<Rightarrow> char" where
  "toLowerCaseChar c =
     (case map_of (zip ''ABCDEFGHIJKLMNOPQRSTUVWXYZ'' ''abcdefghijklmnopqrstuvwxyz'') c of
        Some l \<Rightarrow> l
      | None \<Rightarrow> c)"

definition toLowerCase :: "string \<Rightarrow> string" where
  "toLowerCase s = map toLowerCaseChar s"

text \<open>The arguments handed to the ABI encoder are JavaScript values: strings
  (addresses, hex data), bigints, numbers, objects and arrays.\<close>

datatype jsValue =
    JString string
  | JBigInt int
  | JNumber int
  | JObject "(string \<times> jsValue) list"
  | JArray "jsValue list"

text \<open>\<^verbatim>\<open>Hex | ByteArray\<close>, what \<^verbatim>\<open>keccak256\<close> accepts.\<close>

datatype bytesLike =
    HexString string
  | ByteArray "8 word list"

subsection \<open>Contract ABIs\<close>

datatype abiParameter = AbiParameter (internalType: string) (name: string) (type: string)

datatype abiItem =
  AbiFunction (inputs: "abiParameter list") (functionName: string)
    (outputs: "abiParameter list") (stateMutability: string)

type_synonym abi = "abiItem list"

definition createAccountAbi :: abi where
  "createAccountAbi =
     [AbiFunction
        [AbiParameter ''address'' ''_implementation'' ''address'',
         AbiParameter ''bytes'' ''_data'' ''bytes'',
         AbiParameter ''uint256'' ''_index'' ''uint256'']
        ''createAccount''
        [AbiParameter ''address'' ''proxy'' ''address'']
        ''payable'']"

definition eip1271Abi :: abi where
  "eip1271Abi =
     [AbiFunction
        []
        ''eip712Domain''
        [AbiParameter ''bytes1'' ''fields'' ''bytes1'',
         AbiParameter ''string'' ''name'' ''string'',
         AbiParameter ''string'' ''version'' ''string'',
         AbiParameter ''uint256'' ''chainId'' ''uint256'',
         AbiParameter ''address'' ''verifyingContract'' ''address'',
         AbiParameter ''bytes32'' ''salt'' ''bytes32'',
         AbiParameter ''uint256[]'' ''extensions'' ''uint256[]'']
        ''view'',
      AbiFunction
        [AbiParameter ''bytes32'' ''data'' ''bytes32'',
         AbiParameter ''bytes'' ''signature'' ''bytes'']
        ''isValidSignature''
        [AbiParameter ''bytes4'' ''magicValue'' ''bytes4'']
        ''view'']"

subsection \<open>Default addresses\<close>

definition ACCOUNT_V2_3_LOGIC :: string where
  "ACCOUNT_V2_3_LOGIC = ''0xD3F582F6B4814E989Ee8E96bc3175320B5A540ab''"

definition FACTORY_ADDRESS :: string where
  "FACTORY_ADDRESS = ''0x5de4839a76cf55d0c90e2061ef4386d962E15ae3''"

definition ENTRYPOINT_V0_6 :: string where
  "ENTRYPOINT_V0_6 = ''0x5FF137D4b0FDCD49DcA30c7CF57E578a026d2789''"

subsection \<open>What the module imports\<close>

text \<open>The decoded result of \<^verbatim>\<open>eip712Domain()\<close>: the tuple
  \<^verbatim>\<open>[fields, name, version, chainId, verifyingContract, salt, extensions]\<close>.\<close>

record eip712Domain =
  domainFields :: string
  domainName :: string
  version :: string
  chainId :: int
  verifyingContract :: string
  salt :: string
  extensions :: "int list"

text \<open>
  The functions of viem the module calls, and the two ABI tables of
  \<^verbatim>\<open>./abi/KernelAccountAbi.js\<close>, are parameters: every theorem below holds for any
  hash, any encoder and any ABI table. The encoders, the decoder and the hash throw on
  malformed input, so they return a result; \<^verbatim>\<open>concatHex\<close> and \<^verbatim>\<open>stringToHex\<close> do
  not throw. \<open>toAccount\<close> is \<^verbatim>\<open>toAccount\<close> of \<^verbatim>\<open>viem/accounts\<close> as a function of
  the address it is given: it throws (\<^verbatim>\<open>InvalidAddressError\<close>) for an address it does
  not accept, and otherwise builds the account object from the functions passed in, which
  are \<open>signMessage\<close> and \<open>signTransaction\<close> below.
\<close>

record lib =
  keccak256 :: "bytesLike \<Rightarrow> string result"
  stringToHex :: "string \<Rightarrow> string"
  concatHex :: "string list \<Rightarrow> string"
  encodeFunctionData :: "abi \<Rightarrow> string \<Rightarrow> jsValue list \<Rightarrow> string result"
  encodeAbiParameters :: "string list \<Rightarrow> jsValue list \<Rightarrow> string result"
  decodeFunctionResult :: "abi \<Rightarrow> string \<Rightarrow> string \<Rightarrow> eip712Domain result"
  toAccount :: "string \<Rightarrow> unit result"
  KernelExecuteAbi :: abi
  KernelInitAbi :: abi

text \<open>The validator or plugin capability, as far as this module uses it. A method
  without arguments is the result of calling it.\<close>

record 'z kernelPlugin =
  address :: string
  signer :: "'z account_scheme"
  getEnableData :: "string result"
  shouldDelegateViaFallback :: bool

text \<open>The client: the answers of the chain and of the signing action.
  \<open>request\<close> is \<^verbatim>\<open>client.request\<close> for the method \<^verbatim>\<open>eth_call\<close> at block
  \<^verbatim>\<open>latest\<close>, with \<^verbatim>\<open>to\<close> and \<^verbatim>\<open>data\<close>; \<open>signMessageAction\<close> is
  \<^verbatim>\<open>signMessage\<close> of \<^verbatim>\<open>viem/actions\<close> with the message \<^verbatim>\<open>{ raw: digest }\<close>.\<close>

record 'z client =
  request :: "string \<Rightarrow> string \<Rightarrow> string result"
  getBytecode :: "string \<Rightarrow> string option result"
  getSenderAddress :: "string \<Rightarrow> string \<Rightarrow> string result"
  signMessageAction :: "'z account_scheme \<Rightarrow> string \<Rightarrow> string result"

subsection \<open>The parameters of \<^verbatim>\<open>createKernelAccount\<close> and the account it builds\<close>

record 'z createKernelAccountParameters =
  defaultValidator :: "'z kernelPlugin option"
  plugin :: "'z kernelPlugin option"
  pluginEnableSignature :: "string option"
  entryPoint :: "string option"
  index :: "int option"
  factoryAddress :: "string option"
  accountLogicAddress :: "string option"
  deployedAccountAddress :: "string option"
  initCode :: "string option"

text \<open>The defaults of the destructuring pattern.\<close>

definition entryPointOf :: "'z createKernelAccountParameters \<Rightarrow> string" where
  "entryPointOf p = (case entryPoint p of None \<Rightarrow> ENTRYPOINT_V0_6 | Some a \<Rightarrow> a)"

definition indexOf :: "'z createKernelAccountParameters \<Rightarrow> int" where
  "indexOf p = (case index p of None \<Rightarrow> 0 | Some i \<Rightarrow> i)"

definition factoryAddressOf :: "'z createKernelAccountParameters \<Rightarrow> string" where
  "factoryAddressOf p = (case factoryAddress p of None \<Rightarrow> FACTORY_ADDRESS | Some a \<Rightarrow> a)"

definition accountLogicAddressOf :: "'z createKernelAccountParameters \<Rightarrow> string" where
  "accountLogicAddressOf p =
     (case accountLogicAddress p of None \<Rightarrow> ACCOUNT_V2_3_LOGIC | Some a \<Rightarrow> a)"

text \<open>The returned object: the constants its methods close over.\<close>

record 'z kernelSmartAccount =
  accountAddress :: string
  currentValidator :: "'z kernelPlugin"
  accountClient :: "'z client"
  parameters :: "'z createKernelAccountParameters"

subsection \<open>Init code\<close>

text \<open>\<^verbatim>\<open>getAccountInitCode\<close>. \<open>enableData\<close> is the outcome of the promise the caller
  passes in; the function awaits it after the owner check.\<close>

definition getAccountInitCode ::
  "lib \<Rightarrow> string \<Rightarrow> int \<Rightarrow> string \<Rightarrow> string \<Rightarrow> string \<Rightarrow> string result \<Rightarrow> string result" where
  "getAccountInitCode l owner idx factory logic validatorAddress enableData =
     (if owner = [] then Inl (Error ''Owner account not found'')
      else
        bindE enableData (\<lambda>awaited.
        bindE (encodeFunctionData l (KernelInitAbi l) ''initialize''
                 [JString validatorAddress, JString awaited]) (\<lambda>initialisationData.
        bindE (encodeFunctionData l createAccountAbi ''createAccount''
                 [JString logic, JString initialisationData, JBigInt idx]) (\<lambda>callData.
        Inr (concatHex l [factory, callData])))))"

text \<open>\<^verbatim>\<open>generateInitCode\<close>, the closure of \<^verbatim>\<open>createKernelAccount\<close>: it calls
  \<^verbatim>\<open>defaultValidator.getEnableData()\<close> while it builds the arguments of
  \<^verbatim>\<open>getAccountInitCode\<close>.\<close>

definition generateInitCode :: "lib \<Rightarrow> 'z createKernelAccountParameters \<Rightarrow> ('z, string) io" where
  "generateInitCode l p =
     (case (if truthy (initCode p) then initCode p else None) of
        Some ic \<Rightarrow> resolve ic
      | None \<Rightarrow>
          (case defaultValidator p of
             Some dv \<Rightarrow>
               await (perform (GetEnableData (address dv)) (Inr (getEnableData dv)))
                 (\<lambda>enableData.
                   settled (getAccountInitCode l (signerAddress (signer dv)) (indexOf p)
                     (factoryAddressOf p) (accountLogicAddressOf p) (address dv) enableData))
           | None \<Rightarrow> reject (Error ''No init code or default validator provided'')))"

subsection \<open>Address resolution\<close>

definition getAccountAddress ::
  "'z client \<Rightarrow> string \<Rightarrow> ('z, string) io \<Rightarrow> ('z, string) io" where
  "getAccountAddress c ep initCodeProvider =
     await initCodeProvider (\<lambda>ic.
       perform (GetSenderAddress ic ep) (getSenderAddress c ic ep))"

subsection \<open>Message signing\<close>

definition EIP712_DOMAIN_TYPE :: string where
  "EIP712_DOMAIN_TYPE =
     ''EIP712Domain(string name,string version,uint256 chainId,address verifyingContract)''"

text \<open>The constants \<^verbatim>\<open>encoded\<close>, \<^verbatim>\<open>domainSeparator\<close> and \<^verbatim>\<open>digest\<close> of
  \<^verbatim>\<open>signHashedMessage\<close>, each as a function of what it is computed from.\<close>

definition encoded :: "lib \<Rightarrow> eip712Domain \<Rightarrow> string \<Rightarrow> string result" where
  "encoded l decoded accAddress =
     bindE (keccak256 l (HexString (stringToHex l EIP712_DOMAIN_TYPE))) (\<lambda>typeHash.
     bindE (keccak256 l (HexString (stringToHex l (domainName decoded)))) (\<lambda>nameHash.
     bindE (keccak256 l (HexString (stringToHex l (version decoded)))) (\<lambda>versionHash.
     encodeAbiParameters l
       [''bytes32'', ''bytes32'', ''bytes32'', ''uint256'', ''address'']
       [JString typeHash, JString nameHash, JString versionHash,
        JBigInt (chainId decoded), JString accAddress])))"

definition domainSeparator :: "lib \<Rightarrow> eip712Domain \<Rightarrow> string \<Rightarrow> string result" where
  "domainSeparator l decoded accAddress =
     bindE (encoded l decoded accAddress) (\<lambda>enc. keccak256 l (HexString enc))"

definition digest :: "lib \<Rightarrow> eip712Domain \<Rightarrow> string \<Rightarrow> string \<Rightarrow> string result" where
  "digest l decoded accAddress messageHash =
     bindE (domainSeparator l decoded accAddress) (\<lambda>separator.
       keccak256 l (HexString (concatHex l [''0x1901'', separator, messageHash])))"

definition signHashedMessage ::
  "lib \<Rightarrow> 'z client \<Rightarrow> 'z kernelPlugin \<Rightarrow> string \<Rightarrow> string \<Rightarrow> string \<Rightarrow> ('z, string) io" where
  "signHashedMessage l c validator logicAddress accAddress messageHash =
     await (settled (encodeFunctionData l eip1271Abi ''eip712Domain'' [])) (\<lambda>callData.
     await (perform (EthCall logicAddress callData) (request c logicAddress callData)) (\<lambda>domain.
     await (settled (decodeFunctionResult l eip1271Abi ''eip712Domain'' domain)) (\<lambda>decoded.
     await (settled (digest l decoded accAddress messageHash)) (\<lambda>d.
       perform (SignMessage (signer validator) d) (signMessageAction c (signer validator) d)))))"

datatype signableMessage =
    MessageString string
  | MessageRaw bytesLike

fun signMessage :: "lib \<Rightarrow> 'z kernelSmartAccount \<Rightarrow> signableMessage \<Rightarrow> ('z, string) io" where
  "signMessage l h (MessageString message) =
     await (settled (keccak256 l (HexString (stringToHex l message)))) (\<lambda>messageHash.
       signHashedMessage l (accountClient h) (currentValidator h)
         (accountLogicAddressOf (parameters h)) (accountAddress h) messageHash)"
| "signMessage l h (MessageRaw raw) =
     await (settled (keccak256 l raw)) (\<lambda>messageHash.
       signHashedMessage l (accountClient h) (currentValidator h)
         (accountLogicAddressOf (parameters h)) (accountAddress h) messageHash)"

definition signTransaction :: "'z kernelSmartAccount \<Rightarrow> 'tx \<Rightarrow> 'opts \<Rightarrow> ('z, string) io" where
  "signTransaction h transaction options = reject SignTransactionNotSupportedBySmartAccount"

subsection \<open>Construction\<close>

definition createKernelAccount ::
  "lib \<Rightarrow> 'z client \<Rightarrow> 'z createKernelAccountParameters \<Rightarrow> ('z, 'z kernelSmartAccount) io" where
  "createKernelAccount l c p =
     (case (case plugin p of Some pl \<Rightarrow> Some pl | None \<Rightarrow> defaultValidator p) of
        None \<Rightarrow>
          reject (Error
            ''You must provide at least defaultValidator or plugin for the kernel smart account'')
      | Some validator \<Rightarrow>
          await (case deployedAccountAddress p of
                   Some a \<Rightarrow> resolve a
                 | None \<Rightarrow> getAccountAddress c (entryPointOf p) (generateInitCode l p)) (\<lambda>a.
            if a = [] then reject (Error ''Account address not found'')
            else
              await (settled (toAccount l a)) (\<lambda>account.
                resolve
                  \<lparr>accountAddress = a, currentValidator = validator, accountClient = c,
                   parameters = p\<rparr>)))"

subsection \<open>Init code of a deployed or undeployed account\<close>

definition getInitCode :: "lib \<Rightarrow> 'z kernelSmartAccount \<Rightarrow> ('z, string) io" where
  "getInitCode l h =
     await (perform (GetBytecode (accountAddress h))
              (getBytecode (accountClient h) (accountAddress h))) (\<lambda>contractCode.
       if (case contractCode of None \<Rightarrow> 0 | Some code \<Rightarrow> length code) > 2 then resolve ''0x''
       else generateInitCode l (parameters h))"

subsection \<open>Call encoding\<close>

record callDescriptor =
  to :: string
  "value" :: int
  data :: string
  callType :: "string option"

datatype kernelEncodeCallDataArgs =
    Single callDescriptor
  | Batch "callDescriptor list"

definition batchEntry :: "callDescriptor \<Rightarrow> jsValue" where
  "batchEntry txn =
     JObject [(''to'', JString (to txn)), (''value'', JBigInt (value txn)),
              (''data'', JString (data txn))]"

text \<open>The \<^verbatim>\<open>tx.map\<close> of the batch branch: the callback throws at the first element
  whose call type is \<^verbatim>\<open>delegatecall\<close>.\<close>

fun batchEntries :: "callDescriptor list \<Rightarrow> jsValue list result" where
  "batchEntries [] = Inr []"
| "batchEntries (txn # txs) =
     (if callType txn = Some ''delegatecall'' then Inl (Error ''Cannot batch delegatecall'')
      else bindE (batchEntries txs) (\<lambda>rest. Inr (batchEntry txn # rest)))"

fun encodeCallData :: "lib \<Rightarrow> 'z kernelSmartAccount \<Rightarrow> kernelEncodeCallDataArgs \<Rightarrow> string result" where
  "encodeCallData l h (Batch txs) =
     bindE (batchEntries txs) (\<lambda>calls.
       encodeFunctionData l (KernelExecuteAbi l) ''executeBatch'' [JArray calls])"
| "encodeCallData l h (Single tx) =
     (if \<not> truthy (callType tx) \<or> callType tx = Some ''call'' then
        (if toLowerCase (to tx) = accountAddress h
            \<and> shouldDelegateViaFallback (currentValidator h)
         then Inr (data tx)
         else encodeFunctionData l (KernelExecuteAbi l) ''execute''
                [JString (to tx), JBigInt (value tx), JString (data tx), JNumber 0])
      else if callType tx = Some ''delegatecall'' then
        encodeFunctionData l (KernelExecuteAbi l) ''executeDelegateCall''
          [JString (to tx), JString (data tx)]
      else Inl (Error ''Invalid call type''))"

subsection \<open>Concrete collaborators\<close>

text \<open>Stand-ins for the imported functions, the chain and a validator, to run the
  definitions on concrete inputs. The stand-in hash and encoders only tag their input;
  no theorem depends on them except the examples that name them.\<close>

fun argText :: "jsValue \<Rightarrow> string" where
  "argText (JString s) = drop 2 s @ '';''"
| "argText (JBigInt i) = ''bigint;''"
| "argText (JNumber i) = ''number;''"
| "argText (JObject kvs) = ''object;''"
| "argText (JArray xs) = ''array;''"

definition testDomain :: eip712Domain where
  "testDomain =
     \<lparr>domainFields = ''0x0f'', domainName = ''Kernel'', version = ''0.2.3'', chainId = 1,
      verifyingContract = ''0xD3F582F6B4814E989Ee8E96bc3175320B5A540ab'',
      salt = ''0x00'', extensions = []\<rparr>"

definition otherDomain :: eip712Domain where
  "otherDomain =
     \<lparr>domainFields = ''0x1f'', domainName = ''Kernel'', version = ''0.2.3'', chainId = 1,
      verifyingContract = ''0x70997970C51812dc3A010C7d01b50e0d17dc79C8'',
      salt = ''0x01'', extensions = [1, 2]\<rparr>"

text \<open>The shape viem asks of an address: \<^verbatim>\<open>0x\<close> and forty hexadecimal digits.\<close>

definition isAddress :: "string \<Rightarrow> bool" where
  "isAddress a =
     (take 2 a = ''0x'' \<and> length a = 42
      \<and> list_all (\<lambda>c. c \<in> set ''0123456789abcdefABCDEF'') (drop 2 a))"

definition testLib :: lib where
  "testLib =
     \<lparr>keccak256 = (\<lambda>b. case b of
                         HexString s \<Rightarrow> Inr (''0xkeccak<'' @ drop 2 s @ ''>'')
                       | ByteArray bs \<Rightarrow> Inr ''0xkeccak<bytes>''),
      stringToHex = (\<lambda>s. ''0x'' @ s),
      concatHex = (\<lambda>vs. ''0x'' @ concat (map (drop 2) vs)),
      encodeFunctionData = (\<lambda>a f args. Inr (''0x'' @ f @ '':'' @ concat (map argText args))),
      encodeAbiParameters = (\<lambda>ts args. Inr (''0x'' @ concat (map argText args))),
      decodeFunctionResult = (\<lambda>a f d. Inr (if d = ''0x0f'' then testDomain else otherDomain)),
      toAccount = (\<lambda>a. if isAddress a then Inr () else Inl (InvalidAddressError a)),
      KernelExecuteAbi = [],
      KernelInitAbi = []\<rparr>"

definition testClient :: "unit client" where
  "testClient =
     \<lparr>request = (\<lambda>t d. Inr ''0x0f''),
      getBytecode = (\<lambda>a. Inr None),
      getSenderAddress = (\<lambda>ic ep. Inr ''0x1111111111111111111111111111111111111111''),
      signMessageAction = (\<lambda>acc d. Inr (''0xsigned<'' @ drop 2 d @ ''>''))\<rparr>"

definition testValidator :: "unit kernelPlugin" where
  "testValidator =
     \<lparr>address = ''0xd9AB5096a832b9ce79914329DAEE236f8Eea0390'',
      signer = \<lparr>signerAddress = ''0xf39Fd6e51aad88F6F4ce6aB8827279cffFb92266''\<rparr>,
      getEnableData = Inr ''0xf39Fd6e51aad88F6F4ce6aB8827279cffFb92266'',
      shouldDelegateViaFallback = True\<rparr>"

definition testParameters :: "unit createKernelAccountParameters" where
  "testParameters =
     \<lparr>defaultValidator = Some testValidator, plugin = None, pluginEnableSignature = None,
      entryPoint = None, index = None, factoryAddress = None, accountLogicAddress = None,
      deployedAccountAddress = None, initCode = None\<rparr>"

text \<open>An account whose address is written in lower case, and one whose address is
  written with its EIP-55 checksum, as \<^verbatim>\<open>getSenderAddress\<close> and most callers write it.\<close>

definition lowerCaseAccount :: "unit kernelSmartAccount" where
  "lowerCaseAccount =
     \<lparr>accountAddress = ''0x5ff137d4b0fdcd49dca30c7cf57e578a026d2789'',
      currentValidator = testValidator, accountClient = testClient,
      parameters = testParameters\<rparr>"

definition checksumAccount :: "unit kernelSmartAccount" where
  "checksumAccount =
     \<lparr>accountAddress = ''0x5FF137D4b0FDCD49DcA30c7CF57E578a026d2789'',
      currentValidator = testValidator, accountClient = testClient,
      parameters = testParameters\<lparr>deployedAccountAddress :=
        Some ''0x5FF137D4b0FDCD49DcA30c7CF57E578a026d2789''\<rparr>\<rparr>"

definition transferCall :: callDescriptor where
  "transferCall =
     \<lparr>to = ''0x70997970C51812dc3A010C7d01b50e0d17dc79C8'', value = 7,
      data = ''0xa9059cbb'', callType = None\<rparr>"

definition selfCall :: callDescriptor where
  "selfCall =
     \<lparr>to = ''0x5FF137D4b0FDCD49DcA30c7CF57E578a026d2789'', value = 0,
      data = ''0x12345678'', callType = None\<rparr>"

text \<open>A chain on which the account is deployed, and an account built with an explicit
  init code of \<^verbatim>\<open>0x\<close> and with a plugin only.\<close>

definition otherClient :: "unit client" where
  "otherClient = testClient\<lparr>request := (\<lambda>t d. Inr ''0x1f'')\<rparr>"

definition deployedClient :: "unit client" where
  "deployedClient = testClient\<lparr>getBytecode := (\<lambda>a. Inr (Some ''0x363d3d373d3d3d363d73''))\<rparr>"

definition pluginOnlyParameters :: "unit createKernelAccountParameters" where
  "pluginOnlyParameters =
     \<lparr>defaultValidator = None, plugin = Some testValidator, pluginEnableSignature = None,
      entryPoint = None, index = None, factoryAddress = None, accountLogicAddress = None,
      deployedAccountAddress = Some ''0x5FF137D4b0FDCD49DcA30c7CF57E578a026d2789'',
      initCode = None\<rparr>"

definition overrideAccount :: "unit kernelSmartAccount" where
  "overrideAccount =
     \<lparr>accountAddress = ''0x5ff137d4b0fdcd49dca30c7cf57e578a026d2789'',
      currentValidator = testValidator, accountClient = testClient,
      parameters = testParameters\<lparr>initCode := Some ''0x''\<rparr>\<rparr>"

text \<open>The domain separator and the digest of the message \<^verbatim>\<open>hello\<close> that the
  stand-ins give for the lower-case account.\<close>

definition testSeparator :: string where
  "testSeparator =
     ''0xkeccak<keccak<EIP712Domain(string name,string version,uint256 chainId,address verifyingContract)>;keccak<Kernel>;keccak<0.2.3>;bigint;5ff137d4b0fdcd49dca30c7cf57e578a026d2789;>''"

definition helloDigest :: string where
  "helloDigest =
     ''0xkeccak<1901keccak<keccak<EIP712Domain(string name,string version,uint256 chainId,address verifyingContract)>;keccak<Kernel>;keccak<0.2.3>;bigint;5ff137d4b0fdcd49dca30c7cf57e578a026d2789;>keccak<hello>>''"

section \<open>Properties\<close>

subsection \<open>Helper facts\<close>

lemma toLowerCaseChar_idem: "toLowerCaseChar (toLowerCaseChar c) = toLowerCaseChar c"
  by (simp add: toLowerCaseChar_def)

lemma toLowerCase_idem: "toLowerCase (toLowerCase s) = toLowerCase s"
  by (simp add: toLowerCase_def toLowerCaseChar_idem)

lemma batchEntries_all_calls:
  "\<forall>txn \<in> set txs. callType txn \<noteq> Some ''delegatecall'' \<Longrightarrow>
   batchEntries txs = Inr (map batchEntry txs)"
  by (induction txs) (simp_all add: bindE_def)

lemma batchEntries_delegatecall:
  "\<exists>txn \<in> set txs. callType txn = Some ''delegatecall'' \<Longrightarrow>
   batchEntries txs = Inl (Error ''Cannot batch delegatecall'')"
proof (induction txs)
  case Nil
  then show ?case by simp
next
  case (Cons txn txs)
  show ?case
  proof (cases "callType txn = Some ''delegatecall''")
    case True
    then show ?thesis by simp
  next
    case False
    with Cons.prems have "\<exists>t \<in> set txs. callType t = Some ''delegatecall''" by auto
    with Cons.IH have "batchEntries txs = Inl (Error ''Cannot batch delegatecall'')" by blast
    with False show ?thesis by (simp add: bindE_def)
  qed
qed

subsection \<open>Call encoding\<close>

text \<open>
  C3. A batch with an element whose call type is \<^verbatim>\<open>delegatecall\<close> fails with
  \<^verbatim>\<open>Cannot batch delegatecall\<close>, whatever the encoder would have answered: the
  encoder is not reached. A batch without such an element is the encoder's answer for
  \<^verbatim>\<open>executeBatch\<close> on the array of the elements' \<^verbatim>\<open>{to, value, data}\<close> objects, in
  the order of the input.
\<close>

theorem encodeCallData_batch:
  "((\<exists>txn \<in> set txs. callType txn = Some ''delegatecall'') \<longrightarrow>
      encodeCallData l h (Batch txs) = Inl (Error ''Cannot batch delegatecall''))
   \<and> ((\<forall>txn \<in> set txs'. callType txn \<noteq> Some ''delegatecall'') \<longrightarrow>
      encodeCallData l h (Batch txs') =
        encodeFunctionData l (KernelExecuteAbi l) ''executeBatch''
          [JArray (map (\<lambda>txn. JObject [(''to'', JString (to txn)),
                                       (''value'', JBigInt (value txn)),
                                       (''data'', JString (data txn))]) txs')])"
proof (intro conjI impI)
  assume "\<exists>txn \<in> set txs. callType txn = Some ''delegatecall''"
  then show "encodeCallData l h (Batch txs) = Inl (Error ''Cannot batch delegatecall'')"
    by (simp add: batchEntries_delegatecall bindE_def)
next
  assume "\<forall>txn \<in> set txs'. callType txn \<noteq> Some ''delegatecall''"
  then have "batchEntries txs' = Inr (map batchEntry txs')"
    by (rule batchEntries_all_calls)
  moreover have "map batchEntry txs' =
      map (\<lambda>txn. JObject [(''to'', JString (to txn)), (''value'', JBigInt (value txn)),
                           (''data'', JString (data txn))]) txs'"
    by (simp add: batchEntry_def)
  ultimately show "encodeCallData l h (Batch txs') =
        encodeFunctionData l (KernelExecuteAbi l) ''executeBatch''
          [JArray (map (\<lambda>txn. JObject [(''to'', JString (to txn)),
                                       (''value'', JBigInt (value txn)),
                                       (''data'', JString (data txn))]) txs')]"
    by (simp add: bindE_def)
qed

theorem encodeCallData_batch_witness:
  "encodeCallData testLib lowerCaseAccount
     (Batch [transferCall, transferCall\<lparr>callType := Some ''delegatecall''\<rparr>]) =
     Inl (Error ''Cannot batch delegatecall'')
   \<and> encodeCallData testLib lowerCaseAccount
       (Batch [transferCall\<lparr>value := 1\<rparr>, transferCall\<lparr>callType := Some ''call''\<rparr>]) =
     encodeFunctionData testLib (KernelExecuteAbi testLib) ''executeBatch''
       [JArray
          [JObject [(''to'', JString ''0x70997970C51812dc3A010C7d01b50e0d17dc79C8''),
                    (''value'', JBigInt 1), (''data'', JString ''0xa9059cbb'')],
           JObject [(''to'', JString ''0x70997970C51812dc3A010C7d01b50e0d17dc79C8''),
                    (''value'', JBigInt 7), (''data'', JString ''0xa9059cbb'')]]]"
  using encodeCallData_batch
    [of "[transferCall, transferCall\<lparr>callType := Some ''delegatecall''\<rparr>]"
        testLib lowerCaseAccount
        "[transferCall\<lparr>value := 1\<rparr>, transferCall\<lparr>callType := Some ''call''\<rparr>]"]
  by (simp add: transferCall_def)

text \<open>
  C4. A single call whose call type is unset (or \<^verbatim>\<open>call\<close>) and whose target is
  another address than the account's, however either is capitalised, is the encoder's
  answer for \<^verbatim>\<open>execute(to, value, data, 0)\<close>.
\<close>

theorem encodeCallData_execute:
  assumes "\<not> truthy (callType tx) \<or> callType tx = Some ''call''"
    and "toLowerCase (to tx) \<noteq> toLowerCase (accountAddress h)"
  shows "encodeCallData l h (Single tx) =
           encodeFunctionData l (KernelExecuteAbi l) ''execute''
             [JString (to tx), JBigInt (value tx), JString (data tx), JNumber 0]"
proof -
  have "toLowerCase (to tx) \<noteq> accountAddress h"
  proof
    assume "toLowerCase (to tx) = accountAddress h"
    then have "toLowerCase (toLowerCase (to tx)) = toLowerCase (accountAddress h)" by simp
    with assms(2) show False by (simp add: toLowerCase_idem)
  qed
  with assms(1) show ?thesis by auto
qed

theorem encodeCallData_execute_witness:
  "encodeCallData testLib checksumAccount (Single transferCall) =
     encodeFunctionData testLib (KernelExecuteAbi testLib) ''execute''
       [JString ''0x70997970C51812dc3A010C7d01b50e0d17dc79C8'', JBigInt 7,
        JString ''0xa9059cbb'', JNumber 0]"
proof -
  have unset: "\<not> truthy (callType transferCall) \<or> callType transferCall = Some ''call''"
    by (simp add: transferCall_def)
  have other: "toLowerCase (to transferCall) \<noteq> toLowerCase (accountAddress checksumAccount)"
    by (simp add: transferCall_def checksumAccount_def toLowerCase_def toLowerCaseChar_def)
  from encodeCallData_execute [OF unset other, of testLib]
  show ?thesis by (simp add: transferCall_def)
qed

text \<open>
  C9. A single call of type \<^verbatim>\<open>delegatecall\<close> is the encoder's answer for
  \<^verbatim>\<open>executeDelegateCall(to, data)\<close>; the value of the descriptor is not read, so two
  such descriptors with the same target and data encode alike whatever their values.
\<close>

theorem encodeCallData_delegatecall:
  assumes "callType tx = Some ''delegatecall''"
  shows "encodeCallData l h (Single tx) =
           encodeFunctionData l (KernelExecuteAbi l) ''executeDelegateCall''
             [JString (to tx), JString (data tx)]
         \<and> (callType tx' = Some ''delegatecall'' \<and> to tx' = to tx \<and> data tx' = data tx \<longrightarrow>
              encodeCallData l h (Single tx') = encodeCallData l h (Single tx))"
  using assms by simp

theorem encodeCallData_delegatecall_witness:
  "encodeCallData testLib lowerCaseAccount
     (Single (transferCall\<lparr>callType := Some ''delegatecall''\<rparr>)) =
     encodeFunctionData testLib (KernelExecuteAbi testLib) ''executeDelegateCall''
       [JString ''0x70997970C51812dc3A010C7d01b50e0d17dc79C8'', JString ''0xa9059cbb'']
   \<and> encodeCallData testLib lowerCaseAccount
       (Single (transferCall\<lparr>callType := Some ''delegatecall'', value := 1000\<rparr>)) =
     encodeCallData testLib lowerCaseAccount
       (Single (transferCall\<lparr>callType := Some ''delegatecall''\<rparr>))"
proof -
  have delegate:
    "callType (transferCall\<lparr>callType := Some ''delegatecall''\<rparr>) = Some ''delegatecall''"
    by simp
  from encodeCallData_delegatecall [OF delegate, of testLib lowerCaseAccount
      "transferCall\<lparr>callType := Some ''delegatecall'', value := 1000\<rparr>"]
  show ?thesis by (simp add: transferCall_def)
qed

subsection \<open>Transaction signing\<close>

text \<open>
  C7. \<^verbatim>\<open>signTransaction\<close> rejects with \<^verbatim>\<open>SignTransactionNotSupportedBySmartAccount\<close>
  for every account and every argument, and calls nothing on the way: no signer is asked
  for a signature.
\<close>

theorem signTransaction_not_supported:
  "signTransaction h transaction options = ([], Inl SignTransactionNotSupportedBySmartAccount)"
  by (simp add: signTransaction_def reject_def)

subsection \<open>The fallback short cut\<close>

text \<open>The comparison of the short cut lowers the target only: it succeeds for an
  account address stored in lower case and never for one that holds a capital letter.\<close>

lemma encodeCallData_fallback_lower_case:
  assumes "\<not> truthy (callType tx) \<or> callType tx = Some ''call''"
    and "toLowerCase (accountAddress h) = accountAddress h"
    and "toLowerCase (to tx) = toLowerCase (accountAddress h)"
    and "shouldDelegateViaFallback (currentValidator h)"
  shows "encodeCallData l h (Single tx) = Inr (data tx)"
  using assms by auto

lemma encodeCallData_fallback_capital:
  assumes "\<not> truthy (callType tx) \<or> callType tx = Some ''call''"
    and "toLowerCase (accountAddress h) \<noteq> accountAddress h"
  shows "encodeCallData l h (Single tx) =
           encodeFunctionData l (KernelExecuteAbi l) ''execute''
             [JString (to tx), JBigInt (value tx), JString (data tx), JNumber 0]"
proof -
  have "toLowerCase (to tx) \<noteq> accountAddress h"
  proof
    assume eq: "toLowerCase (to tx) = accountAddress h"
    have "toLowerCase (toLowerCase (to tx)) = toLowerCase (to tx)"
      by (rule toLowerCase_idem)
    then have "toLowerCase (accountAddress h) = accountAddress h"
      unfolding eq .
    with assms(2) show False by simp
  qed
  with assms(1) show ?thesis by auto
qed

text \<open>
  C1. The account below is the one \<^verbatim>\<open>createKernelAccount\<close> returns for a
  \<^verbatim>\<open>deployedAccountAddress\<close> written with its checksum, whenever \<^verbatim>\<open>toAccount\<close>
  accepts that address (it is a well-formed one). A call to that very address,
  with the call type unset and a validator that asks for delegation via the fallback,
  is not returned as its raw data: it is wrapped in \<^verbatim>\<open>execute\<close>, for every encoder.
\<close>

theorem encodeCallData_checksum_self_call:
  "createKernelAccount l testClient (parameters checksumAccount) =
     ([], bindE (toAccount l ''0x5FF137D4b0FDCD49DcA30c7CF57E578a026d2789'')
            (\<lambda>account. Inr checksumAccount))
   \<and> createKernelAccount testLib testClient (parameters checksumAccount) =
       ([], Inr checksumAccount)
   \<and> to selfCall = accountAddress checksumAccount
   \<and> callType selfCall = None
   \<and> shouldDelegateViaFallback (currentValidator checksumAccount)
   \<and> encodeCallData l checksumAccount (Single selfCall) =
       encodeFunctionData l (KernelExecuteAbi l) ''execute''
         [JString ''0x5FF137D4b0FDCD49DcA30c7CF57E578a026d2789'', JBigInt 0,
          JString ''0x12345678'', JNumber 0]
   \<and> encodeCallData testLib checksumAccount (Single selfCall) \<noteq> Inr (data selfCall)"
  by (simp add: createKernelAccount_def checksumAccount_def testParameters_def
      testValidator_def selfCall_def await_def resolve_def settled_def bindE_def
      toLowerCase_def toLowerCaseChar_def testLib_def isAddress_def
      split: sum.splits)

subsection \<open>Address resolution\<close>

text \<open>
  C8. With a \<^verbatim>\<open>deployedAccountAddress\<close>, construction calls nothing outside the module
  (no \<^verbatim>\<open>getEnableData\<close>, no \<^verbatim>\<open>getSenderAddress\<close>, no other request), and an
  account it returns has that address. It returns one whenever the address is a non-empty
  string that \<^verbatim>\<open>toAccount\<close> accepts and a validator or a plugin is given, also where the
  init-code provider would fail; where \<^verbatim>\<open>toAccount\<close> throws, construction fails with
  that error.
\<close>

theorem createKernelAccount_deployed_address:
  assumes "deployedAccountAddress p = Some a"
  shows "fst (createKernelAccount l c p) = []
         \<and> (\<forall>h. snd (createKernelAccount l c p) = Inr h \<longrightarrow> accountAddress h = a)
         \<and> (a \<noteq> [] \<and> (defaultValidator p \<noteq> None \<or> plugin p \<noteq> None)
              \<and> toAccount l a = Inr () \<longrightarrow>
              (\<exists>h. createKernelAccount l c p = ([], Inr h) \<and> accountAddress h = a))
         \<and> (a \<noteq> [] \<and> (defaultValidator p \<noteq> None \<or> plugin p \<noteq> None)
              \<and> toAccount l a = Inl e \<longrightarrow>
              createKernelAccount l c p = ([], Inl e))"
  using assms
  by (auto simp add: createKernelAccount_def await_def resolve_def reject_def settled_def
      split: option.splits if_splits sum.splits)

theorem createKernelAccount_deployed_address_witness:
  "fst (createKernelAccount testLib testClient pluginOnlyParameters) = []
   \<and> (\<exists>h. createKernelAccount testLib testClient pluginOnlyParameters = ([], Inr h)
          \<and> accountAddress h = ''0x5FF137D4b0FDCD49DcA30c7CF57E578a026d2789'')
   \<and> generateInitCode testLib pluginOnlyParameters =
       ([], Inl (Error ''No init code or default validator provided''))
   \<and> createKernelAccount testLib testClient
       (pluginOnlyParameters\<lparr>deployedAccountAddress := Some ''0x1234''\<rparr>) =
       ([], Inl (InvalidAddressError ''0x1234''))"
proof -
  have deployed: "deployedAccountAddress pluginOnlyParameters =
      Some ''0x5FF137D4b0FDCD49DcA30c7CF57E578a026d2789''"
    by (simp add: pluginOnlyParameters_def)
  have accepted: "toAccount testLib ''0x5FF137D4b0FDCD49DcA30c7CF57E578a026d2789'' = Inr ()"
    by (simp add: testLib_def isAddress_def)
  have malformed: "deployedAccountAddress
      (pluginOnlyParameters\<lparr>deployedAccountAddress := Some ''0x1234''\<rparr>) = Some ''0x1234''"
    by simp
  have refused: "toAccount testLib ''0x1234'' = Inl (InvalidAddressError ''0x1234'')"
    by (simp add: testLib_def isAddress_def)
  from createKernelAccount_deployed_address [OF deployed, of testLib testClient] accepted
  have built: "fst (createKernelAccount testLib testClient pluginOnlyParameters) = []
     \<and> (\<exists>h. createKernelAccount testLib testClient pluginOnlyParameters = ([], Inr h)
          \<and> accountAddress h = ''0x5FF137D4b0FDCD49DcA30c7CF57E578a026d2789'')"
    by (simp add: pluginOnlyParameters_def)
  from createKernelAccount_deployed_address [OF malformed, of testLib testClient] refused
  have failed: "createKernelAccount testLib testClient
       (pluginOnlyParameters\<lparr>deployedAccountAddress := Some ''0x1234''\<rparr>) =
       ([], Inl (InvalidAddressError ''0x1234''))"
    by (simp add: pluginOnlyParameters_def)
  have provider: "generateInitCode testLib pluginOnlyParameters =
       ([], Inl (Error ''No init code or default validator provided''))"
    by (simp add: pluginOnlyParameters_def generateInitCode_def reject_def)
  from built provider failed show ?thesis by blast
qed

subsection \<open>Init code of the account\<close>

text \<open>
  C10, as stated, fails: with an explicit init code of \<^verbatim>\<open>0x\<close> and no bytecode at the
  address, \<^verbatim>\<open>getInitCode\<close> returns \<^verbatim>\<open>0x\<close> although the lookup gave no string longer
  than two characters.
\<close>

theorem getInitCode_empty_override:
  "getBytecode (accountClient overrideAccount) (accountAddress overrideAccount) = Inr None
   \<and> getInitCode testLib overrideAccount =
       ([GetBytecode ''0x5ff137d4b0fdcd49dca30c7cf57e578a026d2789''], Inr ''0x'')"
  by (simp add: getInitCode_def overrideAccount_def testClient_def testParameters_def
      generateInitCode_def await_def perform_def resolve_def)

text \<open>
  C10, amended. When the lookup gives a string longer than two characters,
  \<^verbatim>\<open>getInitCode\<close> returns \<^verbatim>\<open>0x\<close>; when it gives \<^verbatim>\<open>undefined\<close> or \<^verbatim>\<open>0x\<close>,
  \<^verbatim>\<open>getInitCode\<close> does what \<^verbatim>\<open>generateInitCode\<close> does after the lookup, and returns
  what it returns (which is \<^verbatim>\<open>0x\<close> when that is the explicit init code).
\<close>

theorem getInitCode_cases:
  "(getBytecode (accountClient h) (accountAddress h) = Inr (Some code) \<and> length code > 2 \<longrightarrow>
      getInitCode l h = ([GetBytecode (accountAddress h)], Inr ''0x''))
   \<and> (getBytecode (accountClient h') (accountAddress h') = Inr None
        \<or> getBytecode (accountClient h') (accountAddress h') = Inr (Some ''0x'') \<longrightarrow>
      getInitCode l h' =
        (GetBytecode (accountAddress h') # fst (generateInitCode l (parameters h')),
         snd (generateInitCode l (parameters h'))))"
  by (auto simp add: getInitCode_def await_def perform_def resolve_def split: prod.splits)

theorem getInitCode_cases_witness:
  "getInitCode testLib (lowerCaseAccount\<lparr>accountClient := deployedClient\<rparr>) =
     ([GetBytecode ''0x5ff137d4b0fdcd49dca30c7cf57e578a026d2789''], Inr ''0x'')
   \<and> getInitCode testLib lowerCaseAccount =
       (GetBytecode ''0x5ff137d4b0fdcd49dca30c7cf57e578a026d2789''
          # fst (generateInitCode testLib testParameters),
        snd (generateInitCode testLib testParameters))"
  using getInitCode_cases
    [of "lowerCaseAccount\<lparr>accountClient := deployedClient\<rparr>" "''0x363d3d373d3d3d363d73''"
        testLib lowerCaseAccount]
  by (simp add: lowerCaseAccount_def deployedClient_def testClient_def)

subsection \<open>Message signing\<close>

text \<open>
  C2. \<^verbatim>\<open>signHashedMessage\<close> reads \<^verbatim>\<open>eip712Domain()\<close> at the logic address and decodes
  the answer. Where that and the hashes succeed, the domain separator it computes is the
  hash of the ABI encoding of: the hash of the domain type, the hash of the decoded name,
  the hash of the decoded version, the decoded chain id, and the address of the account;
  the digest it hands to the signer is the hash of \<^verbatim>\<open>0x1901\<close>, that separator and the
  message hash. On a chain whose answer decodes to the same name, version and chain id,
  whatever its fields bitmap, verifying contract, salt and extensions, the separator is
  the same and the same digest is handed to the signer.
\<close>

theorem signHashedMessage_domainSeparator:
  assumes "encodeFunctionData l eip1271Abi ''eip712Domain'' [] = Inr callData"
    and "request c logicAddress callData = Inr domain"
    and "decodeFunctionResult l eip1271Abi ''eip712Domain'' domain = Inr decoded"
    and "keccak256 l (HexString (stringToHex l EIP712_DOMAIN_TYPE)) = Inr typeHash"
    and "keccak256 l (HexString (stringToHex l (domainName decoded))) = Inr nameHash"
    and "keccak256 l (HexString (stringToHex l (version decoded))) = Inr versionHash"
    and "encodeAbiParameters l
           [''bytes32'', ''bytes32'', ''bytes32'', ''uint256'', ''address'']
           [JString typeHash, JString nameHash, JString versionHash,
            JBigInt (chainId decoded), JString accAddress] = Inr enc"
    and "keccak256 l (HexString enc) = Inr separator"
    and "keccak256 l (HexString (concatHex l [''0x1901'', separator, messageHash])) = Inr d"
  shows "domainSeparator l decoded accAddress = keccak256 l (HexString enc)
         \<and> signHashedMessage l c validator logicAddress accAddress messageHash =
             ([EthCall logicAddress callData, SignMessage (signer validator) d],
              signMessageAction c (signer validator) d)
         \<and> (request c' logicAddress callData = Inr domain'
              \<and> decodeFunctionResult l eip1271Abi ''eip712Domain'' domain' = Inr other
              \<and> domainName other = domainName decoded \<and> version other = version decoded
              \<and> chainId other = chainId decoded \<longrightarrow>
              domainSeparator l other accAddress = domainSeparator l decoded accAddress
              \<and> signHashedMessage l c' validator logicAddress accAddress messageHash =
                  ([EthCall logicAddress callData, SignMessage (signer validator) d],
                   signMessageAction c' (signer validator) d))"
  using assms
  by (simp add: signHashedMessage_def digest_def domainSeparator_def encoded_def bindE_def
      await_def settled_def perform_def)

theorem signHashedMessage_domainSeparator_witness:
  "domainSeparator testLib testDomain ''0x5ff137d4b0fdcd49dca30c7cf57e578a026d2789'' =
     Inr testSeparator
   \<and> signHashedMessage testLib testClient testValidator
       ''0xD3F582F6B4814E989Ee8E96bc3175320B5A540ab''
       ''0x5ff137d4b0fdcd49dca30c7cf57e578a026d2789'' ''0xkeccak<hello>'' =
     ([EthCall ''0xD3F582F6B4814E989Ee8E96bc3175320B5A540ab'' ''0xeip712Domain:'',
       SignMessage (signer testValidator) helloDigest],
      signMessageAction testClient (signer testValidator) helloDigest)
   \<and> domainSeparator testLib otherDomain ''0x5ff137d4b0fdcd49dca30c7cf57e578a026d2789'' =
     Inr testSeparator
   \<and> signHashedMessage testLib otherClient testValidator
       ''0xD3F582F6B4814E989Ee8E96bc3175320B5A540ab''
       ''0x5ff137d4b0fdcd49dca30c7cf57e578a026d2789'' ''0xkeccak<hello>'' =
     ([EthCall ''0xD3F582F6B4814E989Ee8E96bc3175320B5A540ab'' ''0xeip712Domain:'',
       SignMessage (signer testValidator) helloDigest],
      signMessageAction otherClient (signer testValidator) helloDigest)"
proof -
  have callData: "encodeFunctionData testLib eip1271Abi ''eip712Domain'' [] =
      Inr ''0xeip712Domain:''"
    by (simp add: testLib_def)
  have domain: "request testClient ''0xD3F582F6B4814E989Ee8E96bc3175320B5A540ab''
      ''0xeip712Domain:'' = Inr ''0x0f''"
    by (simp add: testClient_def)
  have decoded: "decodeFunctionResult testLib eip1271Abi ''eip712Domain'' ''0x0f'' =
      Inr testDomain"
    by (simp add: testLib_def)
  have typeHash: "keccak256 testLib (HexString (stringToHex testLib EIP712_DOMAIN_TYPE)) =
      Inr ''0xkeccak<EIP712Domain(string name,string version,uint256 chainId,address verifyingContract)>''"
    by (simp add: testLib_def EIP712_DOMAIN_TYPE_def)
  have nameHash: "keccak256 testLib (HexString (stringToHex testLib (domainName testDomain))) =
      Inr ''0xkeccak<Kernel>''"
    by (simp add: testLib_def testDomain_def)
  have versionHash: "keccak256 testLib (HexString (stringToHex testLib (version testDomain))) =
      Inr ''0xkeccak<0.2.3>''"
    by (simp add: testLib_def testDomain_def)
  have enc: "encodeAbiParameters testLib
      [''bytes32'', ''bytes32'', ''bytes32'', ''uint256'', ''address'']
      [JString ''0xkeccak<EIP712Domain(string name,string version,uint256 chainId,address verifyingContract)>'',
       JString ''0xkeccak<Kernel>'', JString ''0xkeccak<0.2.3>'',
       JBigInt (chainId testDomain), JString ''0x5ff137d4b0fdcd49dca30c7cf57e578a026d2789''] =
      Inr ''0xkeccak<EIP712Domain(string name,string version,uint256 chainId,address verifyingContract)>;keccak<Kernel>;keccak<0.2.3>;bigint;5ff137d4b0fdcd49dca30c7cf57e578a026d2789;''"
    by (simp add: testLib_def)
  have separator: "keccak256 testLib (HexString
      ''0xkeccak<EIP712Domain(string name,string version,uint256 chainId,address verifyingContract)>;keccak<Kernel>;keccak<0.2.3>;bigint;5ff137d4b0fdcd49dca30c7cf57e578a026d2789;'') =
      Inr testSeparator"
    by (simp add: testLib_def testSeparator_def)
  have d: "keccak256 testLib
      (HexString (concatHex testLib [''0x1901'', testSeparator, ''0xkeccak<hello>''])) =
      Inr helloDigest"
    by (simp add: testLib_def testSeparator_def helloDigest_def)
  have other: "request otherClient ''0xD3F582F6B4814E989Ee8E96bc3175320B5A540ab''
        ''0xeip712Domain:'' = Inr ''0x1f''
      \<and> decodeFunctionResult testLib eip1271Abi ''eip712Domain'' ''0x1f'' = Inr otherDomain
      \<and> domainName otherDomain = domainName testDomain
      \<and> version otherDomain = version testDomain
      \<and> chainId otherDomain = chainId testDomain"
    by (simp add: otherClient_def testClient_def testLib_def otherDomain_def testDomain_def)
  note inst = signHashedMessage_domainSeparator
    [OF callData domain decoded typeHash nameHash versionHash enc separator d,
     where validator = testValidator and c' = otherClient and domain' = "''0x1f''"
       and other = otherDomain]
  from inst separator have first: "domainSeparator testLib testDomain
      ''0x5ff137d4b0fdcd49dca30c7cf57e578a026d2789'' = Inr testSeparator"
    by simp
  from inst have second: "signHashedMessage testLib testClient testValidator
       ''0xD3F582F6B4814E989Ee8E96bc3175320B5A540ab''
       ''0x5ff137d4b0fdcd49dca30c7cf57e578a026d2789'' ''0xkeccak<hello>'' =
     ([EthCall ''0xD3F582F6B4814E989Ee8E96bc3175320B5A540ab'' ''0xeip712Domain:'',
       SignMessage (signer testValidator) helloDigest],
      signMessageAction testClient (signer testValidator) helloDigest)"
    by (rule conjunct1 [OF conjunct2])
  from mp [OF conjunct2 [OF conjunct2 [OF inst]] other] first
  have third: "domainSeparator testLib otherDomain
        ''0x5ff137d4b0fdcd49dca30c7cf57e578a026d2789'' = Inr testSeparator
      \<and> signHashedMessage testLib otherClient testValidator
       ''0xD3F582F6B4814E989Ee8E96bc3175320B5A540ab''
       ''0x5ff137d4b0fdcd49dca30c7cf57e578a026d2789'' ''0xkeccak<hello>'' =
     ([EthCall ''0xD3F582F6B4814E989Ee8E96bc3175320B5A540ab'' ''0xeip712Domain:'',
       SignMessage (signer testValidator) helloDigest],
      signMessageAction otherClient (signer testValidator) helloDigest)"
    by simp
  from first second third show ?thesis by blast
qed

text \<open>
  C6. \<^verbatim>\<open>signMessage\<close> hashes the hex form of a string message (its UTF-8 bytes) or the
  raw bytes of a raw message. Where that hash, the call to \<^verbatim>\<open>eip712Domain()\<close> at the
  logic address, its decoding and the domain separator succeed, and \<open>d\<close> is the hash of
  \<^verbatim>\<open>0x1901\<close>, the separator and the message hash concatenated, the operation makes two
  calls: the \<^verbatim>\<open>eth_call\<close>, then the signing action with the signer of the current
  validator and exactly \<open>d\<close>; its result is the result of that action.
\<close>

theorem signMessage_digest:
  assumes "keccak256 l (case message of
                          MessageString s \<Rightarrow> HexString (stringToHex l s)
                        | MessageRaw raw \<Rightarrow> raw) = Inr messageHash"
    and "encodeFunctionData l eip1271Abi ''eip712Domain'' [] = Inr callData"
    and "request (accountClient h) (accountLogicAddressOf (parameters h)) callData = Inr domain"
    and "decodeFunctionResult l eip1271Abi ''eip712Domain'' domain = Inr decoded"
    and "domainSeparator l decoded (accountAddress h) = Inr separator"
    and "keccak256 l (HexString (concatHex l [''0x1901'', separator, messageHash])) = Inr d"
  shows "signMessage l h message =
           ([EthCall (accountLogicAddressOf (parameters h)) callData,
             SignMessage (signer (currentValidator h)) d],
            signMessageAction (accountClient h) (signer (currentValidator h)) d)"
  using assms
  by (cases message)
     (simp_all add: signHashedMessage_def digest_def await_def settled_def perform_def bindE_def)

theorem signMessage_digest_witness:
  "signMessage testLib lowerCaseAccount (MessageString ''hello'') =
     ([EthCall ''0xD3F582F6B4814E989Ee8E96bc3175320B5A540ab'' ''0xeip712Domain:'',
       SignMessage \<lparr>signerAddress = ''0xf39Fd6e51aad88F6F4ce6aB8827279cffFb92266''\<rparr>
         helloDigest],
      signMessageAction testClient
        \<lparr>signerAddress = ''0xf39Fd6e51aad88F6F4ce6aB8827279cffFb92266''\<rparr> helloDigest)"
proof -
  have messageHash: "keccak256 testLib (case MessageString ''hello'' of
        MessageString s \<Rightarrow> HexString (stringToHex testLib s)
      | MessageRaw raw \<Rightarrow> raw) = Inr ''0xkeccak<hello>''"
    by (simp add: testLib_def)
  have callData: "encodeFunctionData testLib eip1271Abi ''eip712Domain'' [] =
      Inr ''0xeip712Domain:''"
    by (simp add: testLib_def)
  have domain: "request (accountClient lowerCaseAccount)
      (accountLogicAddressOf (parameters lowerCaseAccount)) ''0xeip712Domain:'' = Inr ''0x0f''"
    by (simp add: lowerCaseAccount_def testClient_def)
  have decoded: "decodeFunctionResult testLib eip1271Abi ''eip712Domain'' ''0x0f'' =
      Inr testDomain"
    by (simp add: testLib_def)
  have separator: "domainSeparator testLib testDomain (accountAddress lowerCaseAccount) =
      Inr testSeparator"
    by (simp add: domainSeparator_def encoded_def bindE_def testLib_def testDomain_def
        EIP712_DOMAIN_TYPE_def lowerCaseAccount_def testSeparator_def)
  have d: "keccak256 testLib
      (HexString (concatHex testLib [''0x1901'', testSeparator, ''0xkeccak<hello>''])) =
      Inr helloDigest"
    by (simp add: testLib_def testSeparator_def helloDigest_def)
  from signMessage_digest [OF messageHash callData domain decoded separator d]
  show ?thesis
    by (simp add: lowerCaseAccount_def testParameters_def testValidator_def
        accountLogicAddressOf_def ACCOUNT_V2_3_LOGIC_def)
qed

subsection \<open>Init code\<close>

text \<open>
  C5. \<^verbatim>\<open>generateInitCode\<close> returns a supplied (non-empty) init code as it is, with no
  call. Without one and with a default validator whose signer has an address, it calls
  \<^verbatim>\<open>getEnableData\<close> once and, where that and the two encodings succeed, returns the
  factory address concatenated with the encoding of
  \<^verbatim>\<open>createAccount(accountLogicAddress, initialize(validatorAddress, enableData), index)\<close>.
  Without either it fails with \<^verbatim>\<open>No init code or default validator provided\<close>. Two
  parameter sets without init code that agree on owner, index, factory address, logic
  address, validator address and enable data produce the same outcome, whatever else
  they hold.
\<close>

theorem generateInitCode_cases:
  "(initCode p1 = Some ic \<and> ic \<noteq> [] \<longrightarrow> generateInitCode l p1 = ([], Inr ic))
   \<and> (\<not> truthy (initCode p2) \<and> defaultValidator p2 = Some dv
        \<and> signerAddress (signer dv) \<noteq> []
        \<and> getEnableData dv = Inr enableData
        \<and> encodeFunctionData l (KernelInitAbi l) ''initialize''
             [JString (address dv), JString enableData] = Inr initialisationData
        \<and> encodeFunctionData l createAccountAbi ''createAccount''
             [JString (accountLogicAddressOf p2), JString initialisationData,
              JBigInt (indexOf p2)] = Inr callData \<longrightarrow>
      generateInitCode l p2 =
        ([GetEnableData (address dv)], Inr (concatHex l [factoryAddressOf p2, callData])))
   \<and> (\<not> truthy (initCode p3) \<and> defaultValidator p3 = None \<longrightarrow>
      generateInitCode l p3 = ([], Inl (Error ''No init code or default validator provided'')))
   \<and> (\<not> truthy (initCode p4) \<and> \<not> truthy (initCode p5)
        \<and> defaultValidator p4 = Some dv4 \<and> defaultValidator p5 = Some dv5
        \<and> signerAddress (signer dv4) = signerAddress (signer dv5)
        \<and> indexOf p4 = indexOf p5
        \<and> factoryAddressOf p4 = factoryAddressOf p5
        \<and> accountLogicAddressOf p4 = accountLogicAddressOf p5
        \<and> address dv4 = address dv5
        \<and> getEnableData dv4 = getEnableData dv5 \<longrightarrow>
      generateInitCode l p4 = generateInitCode l p5)"
  by (simp add: generateInitCode_def getAccountInitCode_def await_def perform_def
      settled_def resolve_def reject_def bindE_def)

theorem generateInitCode_cases_witness:
  "generateInitCode testLib (testParameters\<lparr>initCode := Some ''0xc0de''\<rparr>) =
     ([], Inr ''0xc0de'')
   \<and> generateInitCode testLib testParameters =
       ([GetEnableData ''0xd9AB5096a832b9ce79914329DAEE236f8Eea0390''],
        Inr (concatHex testLib
          [''0x5de4839a76cf55d0c90e2061ef4386d962E15ae3'',
           ''0xcreateAccount:D3F582F6B4814E989Ee8E96bc3175320B5A540ab;initialize:d9AB5096a832b9ce79914329DAEE236f8Eea0390;f39Fd6e51aad88F6F4ce6aB8827279cffFb92266;;bigint;'']))
   \<and> generateInitCode testLib pluginOnlyParameters =
       ([], Inl (Error ''No init code or default validator provided''))
   \<and> generateInitCode testLib
       (testParameters\<lparr>defaultValidator :=
            Some (testValidator\<lparr>shouldDelegateViaFallback := False\<rparr>),
          index := Some 0, entryPoint := Some ''0x0000000000000000000000000000000000000000'',
          deployedAccountAddress := Some ''0x5ff137d4b0fdcd49dca30c7cf57e578a026d2789''\<rparr>) =
     generateInitCode testLib testParameters"
proof -
  note cases = generateInitCode_cases
    [where l = testLib
       and ?p1.0 = "testParameters\<lparr>initCode := Some ''0xc0de''\<rparr>" and ic = "''0xc0de''"
       and ?p2.0 = testParameters and dv = testValidator
       and enableData = "''0xf39Fd6e51aad88F6F4ce6aB8827279cffFb92266''"
       and initialisationData = "''0xinitialize:d9AB5096a832b9ce79914329DAEE236f8Eea0390;f39Fd6e51aad88F6F4ce6aB8827279cffFb92266;''"
       and callData = "''0xcreateAccount:D3F582F6B4814E989Ee8E96bc3175320B5A540ab;initialize:d9AB5096a832b9ce79914329DAEE236f8Eea0390;f39Fd6e51aad88F6F4ce6aB8827279cffFb92266;;bigint;''"
       and ?p3.0 = pluginOnlyParameters
       and ?p4.0 = "testParameters\<lparr>defaultValidator :=
            Some (testValidator\<lparr>shouldDelegateViaFallback := False\<rparr>),
          index := Some 0, entryPoint := Some ''0x0000000000000000000000000000000000000000'',
          deployedAccountAddress := Some ''0x5ff137d4b0fdcd49dca30c7cf57e578a026d2789''\<rparr>"
       and ?dv4.0 = "testValidator\<lparr>shouldDelegateViaFallback := False\<rparr>"
       and ?p5.0 = testParameters and ?dv5.0 = testValidator]
  have override: "generateInitCode testLib (testParameters\<lparr>initCode := Some ''0xc0de''\<rparr>) =
      ([], Inr ''0xc0de'')"
    using cases by (simp add: testParameters_def)
  have built: "generateInitCode testLib testParameters =
       ([GetEnableData ''0xd9AB5096a832b9ce79914329DAEE236f8Eea0390''],
        Inr (concatHex testLib
          [''0x5de4839a76cf55d0c90e2061ef4386d962E15ae3'',
           ''0xcreateAccount:D3F582F6B4814E989Ee8E96bc3175320B5A540ab;initialize:d9AB5096a832b9ce79914329DAEE236f8Eea0390;f39Fd6e51aad88F6F4ce6aB8827279cffFb92266;;bigint;'']))"
    using conjunct1 [OF conjunct2 [OF cases]]
    by (simp add: testParameters_def testValidator_def testLib_def indexOf_def
        factoryAddressOf_def accountLogicAddressOf_def FACTORY_ADDRESS_def
        ACCOUNT_V2_3_LOGIC_def)
  have none: "generateInitCode testLib pluginOnlyParameters =
       ([], Inl (Error ''No init code or default validator provided''))"
    using conjunct1 [OF conjunct2 [OF conjunct2 [OF cases]]]
    by (simp add: pluginOnlyParameters_def)
  have same: "generateInitCode testLib
       (testParameters\<lparr>defaultValidator :=
            Some (testValidator\<lparr>shouldDelegateViaFallback := False\<rparr>),
          index := Some 0, entryPoint := Some ''0x0000000000000000000000000000000000000000'',
          deployedAccountAddress := Some ''0x5ff137d4b0fdcd49dca30c7cf57e578a026d2789''\<rparr>) =
     generateInitCode testLib testParameters"
    using conjunct2 [OF conjunct2 [OF conjunct2 [OF cases]]]
    by (simp add: testParameters_def testValidator_def indexOf_def factoryAddressOf_def
        accountLogicAddressOf_def)
  from override built none same show ?thesis by blast
qed

end
